theory Spec2Isabelle
  imports Main
begin

section \<open>The MongoDB transfer bot (bot.py)\<close>

text \<open>
  A shallow embedding of the handlers \<open>set_source\<close>, \<open>set_target\<close>, \<open>transfer\<close> and of
  \<open>_get_database\<close> of the class \<open>MongoDBTransferBot\<close>. The module-level dictionary
  \<open>user_sessions\<close>, the messages sent with \<open>reply_text\<close>, the log and the databases
  behind the driver are fields of an explicit state; an exception is a value.
\<close>

subsection \<open>Python strings: \<open>str.split\<close> with a one-character separator\<close>

text \<open>
  \<open>s.split(sep)\<close> cuts \<open>s\<close> at every occurrence of \<open>sep\<close>. The result always has at
  least one element (\<open>''.split('/') == ['']\<close>), so \<open>[-1]\<close> and \<open>[0]\<close> on it never
  raise \<open>IndexError\<close>: they are \<open>last\<close> and \<open>hd\<close> of a non-empty list. A character
  other than the separator goes in front of the first piece of the rest (\<open>cons_hd\<close>).
\<close>

fun cons_hd :: "char \<Rightarrow> string list \<Rightarrow> string list" where
  "cons_hd c [] = [[c]]"
| "cons_hd c (w # ws) = (c # w) # ws"

fun str_split :: "char \<Rightarrow> string \<Rightarrow> string list" where
  "str_split sep [] = [[]]"
| "str_split sep (c # cs) =
     (if c = sep then [] # str_split sep cs else cons_hd c (str_split sep cs))"

text \<open>Line 136: \<open>db_name = uri.split('/')[-1].split('?')[0]\<close>.\<close>

definition db_name :: "string \<Rightarrow> string" where
  "db_name uri = hd (str_split (CHR ''?'') (last (str_split (CHR ''/'') uri)))"

subsection \<open>Exceptions, replies, log entries\<close>

text \<open>
  The two \<open>except\<close> clauses of \<open>transfer\<close> tell \<open>pymongo.errors.PyMongoError\<close> (and
  its subclasses) from every other \<open>Exception\<close>; the string is \<open>str(e)\<close>.
\<close>

datatype exn = PyMongoError string | OtherException string

text \<open>
  The texts passed to \<open>reply_text\<close>, one constructor per literal of the source (the
  leading pictogram left out):
  \<^item> \<open>SetSourceUsage\<close>: "Please provide a MongoDB URI. Usage: /set_source <URI>"
  \<^item> \<open>SetTargetUsage\<close>: "Please provide a MongoDB URI. Usage: /set_target <URI>"
  \<^item> \<open>SourceSet\<close>: "Source URI set successfully!"
  \<^item> \<open>TargetSet\<close>: "Target URI set successfully!"
  \<^item> \<open>TransferUsage\<close>: "Usage: /transfer <source_collection> <target_collection>"
  \<^item> \<open>UrisMissing\<close>: "Please set both source and target URIs first!"
  \<^item> \<open>NoDocuments\<close>: "No documents found in source collection"
  \<^item> \<open>Transferred n src tgt\<close>: "Successfully transferred n documents from src to tgt"
  \<^item> \<open>MongoDBError m\<close>: "MongoDB Error: m"
  \<^item> \<open>UnexpectedError m\<close>: "Unexpected error: m"
\<close>

datatype reply =
    SetSourceUsage
  | SetTargetUsage
  | SourceSet
  | TargetSet
  | TransferUsage
  | UrisMissing
  | NoDocuments
  | Transferred nat string string
  | MongoDBError string
  | UnexpectedError string

text \<open>
  The calls of \<open>logger\<close>: \<open>info\<close> "Set source URI for chat c", "Set target URI for chat
  c", "Transferred n docs for chat c"; \<open>error\<close> "MongoDB error: m", "Unexpected error: m".
\<close>

datatype log_entry =
    InfoSetSource int
  | InfoSetTarget int
  | InfoTransferred nat int
  | ErrorMongoDB string
  | ErrorUnexpected string

subsection \<open>The database driver\<close>

text \<open>
  pymongo is not part of the repository. A database is named by a number; a client is
  named by the URI it was built from. What the driver answers is a parameter of the
  model, the record \<open>driver\<close>; what it stores and which clients are open is state.
\<close>

datatype call =
    Connect string
  | Close string
  | Find nat string
  | InsertMany nat string nat

text \<open>
  Modelled from the spec: the database capability of section 6 (\<open>open_connection\<close>,
  \<open>connection.database\<close>, \<open>read_all\<close>, \<open>bulk_insert\<close>). Each field says whether the
  call raises, and with what:
  \<^item> \<open>connect_error uri\<close>: \<open>MongoClient(uri)\<close>;
  \<^item> \<open>named_db client name\<close>: \<open>client[name]\<close>, the database it denotes;
  \<^item> \<open>default_db client\<close>: \<open>client.get_database()\<close>;
  \<^item> \<open>find_error db coll\<close>: \<open>list(db[coll].find())\<close>;
  \<^item> \<open>insert_error db coll old docs\<close>: \<open>db[coll].insert_many(docs)\<close> on a collection
    that holds \<open>old\<close> (a constraint violation, for one).
\<close>

record 'd driver =
  connect_error :: "string \<Rightarrow> exn option"
  named_db :: "string \<Rightarrow> string \<Rightarrow> exn + nat"
  default_db :: "string \<Rightarrow> exn + nat"
  find_error :: "nat \<Rightarrow> string \<Rightarrow> exn option"
  insert_error :: "nat \<Rightarrow> string \<Rightarrow> 'd list \<Rightarrow> 'd list \<Rightarrow> exn option"

text \<open>
  The state: \<open>user_sessions\<close> is the dictionary of line 21, from chat id to a
  dictionary with the keys \<open>'source_uri'\<close> and \<open>'target_uri'\<close>; \<open>outbox\<close> the replies
  sent so far, with the chat they went to; \<open>colls\<close> the documents of every collection
  of every database; \<open>open_clients\<close> the clients built and not yet closed; \<open>calls\<close> the
  driver calls made so far.
\<close>

record 'd state =
  user_sessions :: "int \<rightharpoonup> (string \<rightharpoonup> string)"
  outbox :: "(int \<times> reply) list"
  logs :: "log_entry list"
  colls :: "nat \<times> string \<Rightarrow> 'd list"
  open_clients :: "string list"
  calls :: "call list"

text \<open>
  A reply that was delivered, and a log entry. The reply that raises instead is
  \<open>reply_text_raising\<close>, further down. Every exception of the model is an
  \<open>Exception\<close>; an interrupt of the interpreter is not modelled.
\<close>

definition reply_text :: "'d state \<Rightarrow> int \<Rightarrow> reply \<Rightarrow> 'd state" where
  "reply_text st chat_id r = st\<lparr>outbox := outbox st @ [(chat_id, r)]\<rparr>"

definition logger :: "'d state \<Rightarrow> log_entry \<Rightarrow> 'd state" where
  "logger st e = st\<lparr>logs := logs st @ [e]\<rparr>"

text \<open>\<open>user_sessions.get(chat_id, {})\<close>.\<close>

definition sessions_get :: "'d state \<Rightarrow> int \<Rightarrow> (string \<rightharpoonup> string)" where
  "sessions_get st chat_id =
     (case user_sessions st chat_id of None \<Rightarrow> Map.empty | Some session \<Rightarrow> session)"

text \<open>
  Modelled from the spec: \<open>MongoClient(uri)\<close> either raises or yields an open client;
  \<open>close\<close>, which the \<open>with\<close> statement calls on exit, releases it and does not raise.
\<close>

definition MongoClient :: "'d driver \<Rightarrow> 'd state \<Rightarrow> string \<Rightarrow> exn option \<times> 'd state" where
  "MongoClient drv st uri =
     (let st1 = st\<lparr>calls := calls st @ [Connect uri]\<rparr> in
      case connect_error drv uri of
        Some e \<Rightarrow> (Some e, st1)
      | None \<Rightarrow> (None, st1\<lparr>open_clients := uri # open_clients st1\<rparr>))"

definition close :: "'d state \<Rightarrow> string \<Rightarrow> 'd state" where
  "close st client =
     st\<lparr>calls := calls st @ [Close client],
        open_clients := remove1 client (open_clients st)\<rparr>"

text \<open>
  Reading the trace of driver calls: the clients that were built (the \<open>Connect\<close>
  calls that did not raise) and the clients that were closed, each in the order of the
  calls.
\<close>

fun built_clients :: "'d driver \<Rightarrow> call list \<Rightarrow> string list" where
  "built_clients drv [] = []"
| "built_clients drv (Connect uri # cs) =
     (if connect_error drv uri = None then uri # built_clients drv cs
      else built_clients drv cs)"
| "built_clients drv (_ # cs) = built_clients drv cs"

fun closed_clients :: "call list \<Rightarrow> string list" where
  "closed_clients [] = []"
| "closed_clients (Close client # cs) = client # closed_clients cs"
| "closed_clients (_ # cs) = closed_clients cs"

text \<open>
  Modelled from the spec: \<open>read_all\<close> returns the documents of the collection in the
  store's order and changes nothing; \<open>bulk_insert\<close> appends the documents, or fails and
  leaves the collection as it was.
\<close>

definition coll_find :: "'d driver \<Rightarrow> 'd state \<Rightarrow> nat \<Rightarrow> string \<Rightarrow> (exn + 'd list) \<times> 'd state" where
  "coll_find drv st db coll =
     (let st1 = st\<lparr>calls := calls st @ [Find db coll]\<rparr> in
      case find_error drv db coll of
        Some e \<Rightarrow> (Inl e, st1)
      | None \<Rightarrow> (Inr (colls st (db, coll)), st1))"

definition insert_many ::
  "'d driver \<Rightarrow> 'd state \<Rightarrow> nat \<Rightarrow> string \<Rightarrow> 'd list \<Rightarrow> exn option \<times> 'd state" where
  "insert_many drv st db coll docs =
     (let st1 = st\<lparr>calls := calls st @ [InsertMany db coll (length docs)]\<rparr> in
      case insert_error drv db coll (colls st (db, coll)) docs of
        Some e \<Rightarrow> (Some e, st1)
      | None \<Rightarrow> (None, st1\<lparr>colls := (colls st1)((db, coll) := colls st1 (db, coll) @ docs)\<rparr>))"

subsection \<open>The handlers\<close>

text \<open>
  \<open>_get_database(client, uri)\<close>, lines 134 to 137: the client's database of that name,
  or its default database when the name is empty.
\<close>

definition get_database :: "'d driver \<Rightarrow> string \<Rightarrow> string \<Rightarrow> exn + nat" where
  "get_database drv client uri =
     (if db_name uri \<noteq> [] then named_db drv client (db_name uri) else default_db drv client)"

text \<open>\<open>set_source\<close>, lines 68 to 78, and \<open>set_target\<close>, lines 80 to 90.\<close>

definition set_source :: "'d state \<Rightarrow> int \<Rightarrow> string list \<Rightarrow> 'd state" where
  "set_source st chat_id args =
     (case args of
        [] \<Rightarrow> reply_text st chat_id SetSourceUsage
      | uri # _ \<Rightarrow>
          (let session = sessions_get st chat_id;
               st1 = st\<lparr>user_sessions :=
                        (user_sessions st)(chat_id \<mapsto> session(''source_uri'' \<mapsto> uri))\<rparr>
           in logger (reply_text st1 chat_id SourceSet) (InfoSetSource chat_id)))"

definition set_target :: "'d state \<Rightarrow> int \<Rightarrow> string list \<Rightarrow> 'd state" where
  "set_target st chat_id args =
     (case args of
        [] \<Rightarrow> reply_text st chat_id SetTargetUsage
      | uri # _ \<Rightarrow>
          (let session = sessions_get st chat_id;
               st1 = st\<lparr>user_sessions :=
                        (user_sessions st)(chat_id \<mapsto> session(''target_uri'' \<mapsto> uri))\<rparr>
           in logger (reply_text st1 chat_id TargetSet) (InfoSetTarget chat_id)))"

text \<open>
  The body of the \<open>with\<close> statement of \<open>transfer\<close>, lines 111 to 125. The result is
  the exception that leaves the body, if any, and the state reached.
\<close>

definition transfer_body ::
  "'d driver \<Rightarrow> 'd state \<Rightarrow> int \<Rightarrow> string \<Rightarrow> string \<Rightarrow> string \<Rightarrow> string
     \<Rightarrow> exn option \<times> 'd state" where
  "transfer_body drv st chat_id src_uri tgt_uri src_collection tgt_collection =
     (case get_database drv src_uri src_uri of
        Inl e \<Rightarrow> (Some e, st)
      | Inr src_db \<Rightarrow>
     (case get_database drv tgt_uri tgt_uri of
        Inl e \<Rightarrow> (Some e, st)
      | Inr tgt_db \<Rightarrow>
     (case coll_find drv st src_db src_collection of
        (Inl e, st1) \<Rightarrow> (Some e, st1)
      | (Inr docs, st1) \<Rightarrow>
          if docs = [] then (None, reply_text st1 chat_id NoDocuments)
          else
            (case insert_many drv st1 tgt_db tgt_collection docs of
               (Some e, st2) \<Rightarrow> (Some e, st2)
             | (None, st2) \<Rightarrow>
                 (None,
                  logger
                    (reply_text st2 chat_id
                       (Transferred (length docs) src_collection tgt_collection))
                    (InfoTransferred (length docs) chat_id))))))"

text \<open>
  Line 110, \<open>with MongoClient(src_uri) as src_client, MongoClient(tgt_uri) as
  tgt_client\<close>: two nested \<open>with\<close> statements. A client that was built is closed when
  its block is left, by return or by exception; the exception goes on.
\<close>

definition transfer_with ::
  "'d driver \<Rightarrow> 'd state \<Rightarrow> int \<Rightarrow> string \<Rightarrow> string \<Rightarrow> string \<Rightarrow> string
     \<Rightarrow> exn option \<times> 'd state" where
  "transfer_with drv st chat_id src_uri tgt_uri src_collection tgt_collection =
     (case MongoClient drv st src_uri of
        (Some e, st1) \<Rightarrow> (Some e, st1)
      | (None, st1) \<Rightarrow>
          (case MongoClient drv st1 tgt_uri of
             (Some e, st2) \<Rightarrow> (Some e, close st2 src_uri)
           | (None, st2) \<Rightarrow>
               (case transfer_body drv st2 chat_id src_uri tgt_uri
                       src_collection tgt_collection of
                  (r, st3) \<Rightarrow> (r, close (close st3 tgt_uri) src_uri))))"

text \<open>The two \<open>except\<close> clauses, lines 127 to 132: a reply and a log entry.\<close>

fun except :: "'d state \<Rightarrow> int \<Rightarrow> exn \<Rightarrow> 'd state" where
  "except st chat_id (PyMongoError m) =
     logger (reply_text st chat_id (MongoDBError m)) (ErrorMongoDB m)"
| "except st chat_id (OtherException m) =
     logger (reply_text st chat_id (UnexpectedError m)) (ErrorUnexpected m)"

text \<open>What the operator reads for an exception: the text either clause replies with.\<close>

definition error_reply :: "exn \<Rightarrow> reply" where
  "error_reply e =
     (case e of PyMongoError m \<Rightarrow> MongoDBError m | OtherException m \<Rightarrow> UnexpectedError m)"

text \<open>
  \<open>transfer\<close>, lines 92 to 132. The first component of the result is the exception
  that leaves the handler, if any; the second the state reached.
\<close>

definition transfer ::
  "'d driver \<Rightarrow> 'd state \<Rightarrow> int \<Rightarrow> string list \<Rightarrow> exn option \<times> 'd state" where
  "transfer drv st chat_id args =
     (let session = sessions_get st chat_id in
      if args = [] \<or> length args \<noteq> 2 then (None, reply_text st chat_id TransferUsage)
      else if session ''source_uri'' = None \<or> session ''target_uri'' = None
      then (None, reply_text st chat_id UrisMissing)
      else
        (let src_collection = args ! 0; tgt_collection = args ! 1;
             src_uri = the (session ''source_uri'');
             tgt_uri = the (session ''target_uri'')
         in case transfer_with drv st chat_id src_uri tgt_uri
                   src_collection tgt_collection of
              (None, st') \<Rightarrow> (None, st')
            | (Some e, st') \<Rightarrow> (None, except st' chat_id e)))"

subsection \<open>The handler on any update, with replies that can fail\<close>

text \<open>
  \<open>transfer\<close> above is the handler from line 95 on, for a command whose chat id is
  known and whose replies are delivered. Two things of the source are not in it:
  \<^item> line 94 reads \<open>update.message.chat_id\<close> before the \<open>try\<close>; \<open>update.message\<close> is
    \<open>None\<close> when the update carries no message (a command in an edited message, which
    the handlers registered in lines 33 to 39 also receive), and the read raises
    \<open>AttributeError\<close>;
  \<^item> \<open>await update.message.reply_text(...)\<close> can raise (the message transport failing);
    the calls of lines 99 and 102 are before the \<open>try\<close>, those of lines 117 and 121 are
    inside it, and those of lines 128 and 131 are inside the \<open>except\<close> clauses.
  The definitions of this subsection follow lines 92 to 132 with both.
\<close>









subsection \<open>The resolver in the words of the specification\<close>

text \<open>
  "The substring after the final \<open>/\<close>" is the longest suffix without a \<open>/\<close>;
  "truncated at the first \<open>?\<close>" is the longest prefix without a \<open>?\<close>.
\<close>

definition after_last :: "char \<Rightarrow> string \<Rightarrow> string" where
  "after_last sep s = rev (takeWhile (\<lambda>c. c \<noteq> sep) (rev s))"

definition before_first :: "char \<Rightarrow> string \<Rightarrow> string" where
  "before_first sep s = takeWhile (\<lambda>c. c \<noteq> sep) s"

definition resolve_database_name_spec :: "string \<Rightarrow> string" where
  "resolve_database_name_spec uri = before_first (CHR ''?'') (after_last (CHR ''/'') uri)"

subsection \<open>A concrete driver and concrete states\<close>

text \<open>
  Two servers that accept every connection; the database \<open>db1\<close> is number 1, every
  other named database number 2, and no client has a default database. Nothing fails.
\<close>

definition demo_driver :: "nat driver" where
  "demo_driver =
     \<lparr>connect_error = (\<lambda>uri. None),
      named_db = (\<lambda>client name. Inr (if name = ''db1'' then 1 else 2)),
      default_db = (\<lambda>client. Inl (PyMongoError ''No default database name defined'')),
      find_error = (\<lambda>db coll. None),
      insert_error = (\<lambda>db coll old docs. None)\<rparr>"

text \<open>The same, but the target server refuses the connection.\<close>

definition unreachable_driver :: "nat driver" where
  "unreachable_driver =
     demo_driver\<lparr>connect_error :=
       (\<lambda>uri. if uri = ''mongodb://b/db2'' then Some (PyMongoError ''boom'') else None)\<rparr>"

text \<open>The same as \<open>demo_driver\<close>, but every bulk insert fails.\<close>

definition dupkey_driver :: "nat driver" where
  "dupkey_driver =
     demo_driver\<lparr>insert_error := (\<lambda>db coll old docs. Some (PyMongoError ''boom''))\<rparr>"

text \<open>
  No chat has configured anything; \<open>users\<close> in database 1 holds three documents,
  \<open>backup\<close> in database 2 holds one, every other collection is empty.
\<close>

definition fresh_state :: "nat state" where
  "fresh_state =
     \<lparr>user_sessions = Map.empty, outbox = [], logs = [],
      colls = (\<lambda>k. if k = (1, ''users'') then [10, 20, 30]
                   else if k = (2, ''backup'') then [7] else []),
      open_clients = [], calls = []\<rparr>"

text \<open>Chat 1 has set both URIs; chat 2 only the source.\<close>

definition demo_state :: "nat state" where
  "demo_state =
     fresh_state\<lparr>user_sessions :=
       [1 \<mapsto> [''source_uri'' \<mapsto> ''mongodb://a/db1'', ''target_uri'' \<mapsto> ''mongodb://b/db2''],
        2 \<mapsto> [''source_uri'' \<mapsto> ''mongodb://a/db1'']]\<rparr>"





section \<open>Properties\<close>

subsection \<open>The endpoint resolver\<close>

lemma cons_hd_not_Nil: "cons_hd c xs \<noteq> []"
  by (cases xs) simp_all

lemma hd_cons_hd: "xs \<noteq> [] \<Longrightarrow> hd (cons_hd c xs) = c # hd xs"
  by (cases xs) simp_all

lemma tl_cons_hd: "tl (cons_hd c xs) = tl xs"
  by (cases xs) simp_all

lemma last_cons_hd: "tl xs \<noteq> [] \<Longrightarrow> last (cons_hd c xs) = last xs"
  by (cases xs) simp_all

lemma str_split_not_Nil: "str_split sep s \<noteq> []"
  by (induction s) (simp_all add: cons_hd_not_Nil)

lemma hd_str_split: "hd (str_split sep s) = before_first sep s"
  by (induction s) (simp_all add: before_first_def hd_cons_hd str_split_not_Nil)

lemma str_split_no_sep: "sep \<notin> set s \<Longrightarrow> str_split sep s = [s]"
  by (induction s) auto

lemma tl_str_split: "sep \<in> set s \<Longrightarrow> tl (str_split sep s) \<noteq> []"
  by (induction s) (auto simp: str_split_not_Nil tl_cons_hd)

lemma last_str_split: "last (str_split sep s) = after_last sep s"
proof (induction s)
  case Nil
  show ?case by (simp add: after_last_def)
next
  case (Cons c cs)
  show ?case
  proof (cases "sep \<in> set cs")
    case True
    then have "after_last sep (c # cs) = after_last sep cs"
      by (auto simp: after_last_def takeWhile_append)
    moreover have "last (str_split sep (c # cs)) = last (str_split sep cs)"
      using str_split_not_Nil[of sep cs] tl_str_split[OF True]
      by (simp add: last_cons_hd)
    ultimately show ?thesis using Cons by simp
  next
    case False
    then show ?thesis
      by (auto simp: after_last_def takeWhile_append str_split_no_sep)
  qed
qed

text \<open>What the two words of the specification mean on a string that is cut in two.\<close>

lemma after_last_append: "sep \<notin> set r \<Longrightarrow> after_last sep (pre @ sep # r) = r"
  by (simp add: after_last_def takeWhile_append takeWhile_eq_all_conv[THEN iffD2])

lemma before_first_append: "sep \<notin> set p \<Longrightarrow> before_first sep (p @ sep # rest) = p"
  by (simp add: before_first_def takeWhile_append takeWhile_eq_all_conv[THEN iffD2])

lemma no_sep_after_last: "sep \<notin> set (after_last sep s)"
  unfolding after_last_def by (auto dest: set_takeWhileD)

lemma no_sep_before_first: "sep \<notin> set (before_first sep s)"
  unfolding before_first_def by (auto dest: set_takeWhileD)

lemma set_before_first: "set (before_first sep s) \<subseteq> set s"
  unfolding before_first_def by (auto dest: set_takeWhileD)

lemma after_last_id: "sep \<notin> set s \<Longrightarrow> after_last sep s = s"
proof -
  assume "sep \<notin> set s"
  then have "takeWhile (\<lambda>c. c \<noteq> sep) (rev s) = rev s"
    by (intro takeWhile_eq_all_conv[THEN iffD2]) auto
  then show ?thesis unfolding after_last_def by (simp only: rev_rev_ident)
qed

lemma before_first_id: "sep \<notin> set s \<Longrightarrow> before_first sep s = s"
  unfolding before_first_def by (intro takeWhile_eq_all_conv[THEN iffD2]) auto

lemma db_name_eq: "db_name uri = resolve_database_name_spec uri"
  by (simp add: db_name_def resolve_database_name_spec_def hd_str_split last_str_split)

lemma db_name_idem: "db_name (db_name uri) = db_name uri"
proof -
  let ?r = "db_name uri"
  have r: "?r = before_first (CHR ''?'') (after_last (CHR ''/'') uri)"
    by (simp add: db_name_eq resolve_database_name_spec_def)
  have a: "CHR ''/'' \<notin> set ?r"
    using set_before_first[of "CHR ''?''" "after_last (CHR ''/'') uri"]
      no_sep_after_last[of "CHR ''/''" uri]
    unfolding r by auto
  have b: "CHR ''?'' \<notin> set ?r"
    unfolding r by (rule no_sep_before_first)
  have "db_name ?r = before_first (CHR ''?'') (after_last (CHR ''/'') ?r)"
    by (simp add: db_name_eq resolve_database_name_spec_def)
  also have "\<dots> = ?r"
    by (simp add: after_last_id[OF a] before_first_id[OF b])
  finally show ?thesis .
qed

text \<open>
  C8: the database name that \<open>_get_database\<close> extracts is, for every string, the text
  after the final \<open>/\<close> cut at the first \<open>?\<close>; when it is empty the client's default
  database is taken, otherwise the database of that name. On \<open>mongodb://h/dbname?x=1\<close>
  it is \<open>dbname\<close>, on \<open>mongodb://h/\<close> it is empty, and extracting from an extracted name
  gives that name again.
\<close>

theorem resolve_database_name_correct:
  "db_name uri = resolve_database_name_spec uri
   \<and> get_database drv client uri =
       (if resolve_database_name_spec uri = [] then default_db drv client
        else named_db drv client (resolve_database_name_spec uri))
   \<and> db_name ''mongodb://h/dbname?x=1'' = ''dbname''
   \<and> db_name ''mongodb://h/'' = []
   \<and> db_name (db_name uri) = db_name uri"
proof -
  have "db_name ''mongodb://h/dbname?x=1'' = ''dbname''"
    by (simp add: db_name_def)
  moreover have "db_name ''mongodb://h/'' = []"
    by (simp add: db_name_def)
  moreover have "get_database drv client uri =
       (if resolve_database_name_spec uri = [] then default_db drv client
        else named_db drv client (resolve_database_name_spec uri))"
    by (simp add: get_database_def db_name_eq)
  ultimately show ?thesis
    using db_name_eq[of uri] db_name_idem[of uri] by simp
qed

theorem resolve_database_name_correct_witness:
  "db_name ''mongodb://a/db1?retryWrites=true'' = ''db1''
   \<and> get_database demo_driver ''mongodb://a/db1?retryWrites=true''
         ''mongodb://a/db1?retryWrites=true'' = Inr 1
   \<and> get_database demo_driver ''mongodb://a/'' ''mongodb://a/'' =
         Inl (PyMongoError ''No default database name defined'')
   \<and> db_name (db_name ''mongodb://a/db1?retryWrites=true'') = ''db1''"
proof -
  have n: "resolve_database_name_spec ''mongodb://a/db1?retryWrites=true'' = ''db1''"
    by (simp add: resolve_database_name_spec_def after_last_def before_first_def)
  have e: "resolve_database_name_spec ''mongodb://a/'' = []"
    by (simp add: resolve_database_name_spec_def after_last_def before_first_def)
  have d: "db_name ''db1'' = ''db1''"
    by (simp add: db_name_def)
  show ?thesis
    using resolve_database_name_correct
            [of "''mongodb://a/db1?retryWrites=true''" demo_driver
                "''mongodb://a/db1?retryWrites=true''"]
          resolve_database_name_correct
            [of "''mongodb://a/''" demo_driver "''mongodb://a/''"]
    by (simp add: n e d demo_driver_def)
qed

subsection \<open>What every run of \<open>transfer\<close> does\<close>

lemma transfer_usage:
  "length args \<noteq> 2 \<Longrightarrow> transfer drv st c args = (None, reply_text st c TransferUsage)"
  by (auto simp: transfer_def Let_def)

lemma transfer_missing:
  assumes "length args = 2"
    and "sessions_get st c ''source_uri'' = None \<or> sessions_get st c ''target_uri'' = None"
  shows "transfer drv st c args = (None, reply_text st c UrisMissing)"
  using assms by (auto simp: transfer_def Let_def)

lemma transfer_configured:
  assumes "length args = 2"
    and "sessions_get st c ''source_uri'' = Some su"
    and "sessions_get st c ''target_uri'' = Some tu"
  shows "transfer drv st c args =
    (case transfer_with drv st c su tu (args ! 0) (args ! 1) of
       (None, st') \<Rightarrow> (None, st')
     | (Some e, st') \<Rightarrow> (None, except st' c e))"
  using assms by (auto simp: transfer_def Let_def)

text \<open>
  The body of the \<open>with\<close> statement opens and closes nothing; it sends one reply when
  it ends without exception and none when an exception leaves it.
\<close>

lemma transfer_body_fields:
  assumes "transfer_body drv st c su tu sc tc = (r, st')"
  shows "open_clients st' = open_clients st"
    and "r = None \<longrightarrow>
           (\<exists>x. outbox st' = outbox st @ [(c, x)] \<and> x \<noteq> TransferUsage)"
    and "r \<noteq> None \<longrightarrow> outbox st' = outbox st"
  using assms
  by (auto simp: transfer_body_def coll_find_def insert_many_def reply_text_def
        logger_def Let_def
      split: sum.splits option.splits prod.splits if_splits)

lemma transfer_with_fields:
  assumes "transfer_with drv st c su tu sc tc = (r, st')"
  shows "open_clients st' = open_clients st"
    and "r = None \<longrightarrow>
           (\<exists>x. outbox st' = outbox st @ [(c, x)] \<and> x \<noteq> TransferUsage)"
    and "r \<noteq> None \<longrightarrow> outbox st' = outbox st"
proof -
  show "open_clients st' = open_clients st"
    using assms
    by (auto simp: transfer_with_def MongoClient_def close_def Let_def
        split: option.splits prod.splits dest!: transfer_body_fields(1))
  show "r = None \<longrightarrow>
          (\<exists>x. outbox st' = outbox st @ [(c, x)] \<and> x \<noteq> TransferUsage)"
    using assms
    by (auto simp: transfer_with_def MongoClient_def close_def Let_def
        split: option.splits prod.splits dest!: transfer_body_fields(2))
  show "r \<noteq> None \<longrightarrow> outbox st' = outbox st"
    using assms
    by (auto simp: transfer_with_def MongoClient_def close_def Let_def
        split: option.splits prod.splits dest!: transfer_body_fields(3))
qed

lemma except_fields:
  "open_clients (except st c e) = open_clients st"
  "\<exists>x. outbox (except st c e) = outbox st @ [(c, x)] \<and> x \<noteq> TransferUsage"
  by (cases e; simp add: reply_text_def logger_def)+



text \<open>
  The driver calls of one run: the body of the \<open>with\<close> statement builds and closes
  no client; the statement itself closes what it built, last built first.
\<close>

lemma built_clients_append:
  "built_clients drv (xs @ ys) = built_clients drv xs @ built_clients drv ys"
  by (induction drv xs rule: built_clients.induct) simp_all

lemma closed_clients_append:
  "closed_clients (xs @ ys) = closed_clients xs @ closed_clients ys"
  by (induction xs rule: closed_clients.induct) simp_all

lemma transfer_body_calls:
  assumes "transfer_body drv st c su tu sc tc = (r, st')"
  shows "\<exists>new. calls st' = calls st @ new \<and> built_clients drv new = []
           \<and> closed_clients new = []"
  using assms
  by (auto simp: transfer_body_def coll_find_def insert_many_def reply_text_def
        logger_def Let_def
      split: sum.splits option.splits prod.splits if_splits)

lemma transfer_with_calls:
  assumes "transfer_with drv st c su tu sc tc = (r, st')"
  shows "\<exists>new. calls st' = calls st @ new
           \<and> closed_clients new = rev (built_clients drv new)"
proof (cases "connect_error drv su")
  case (Some e)
  with assms have "calls st' = calls st @ [Connect su]"
    by (auto simp: transfer_with_def MongoClient_def)
  with Some show ?thesis by simp
next
  case su: None
  show ?thesis
  proof (cases "connect_error drv tu")
    case (Some e)
    with su assms have "calls st' = calls st @ [Connect su, Connect tu, Close su]"
      by (auto simp: transfer_with_def MongoClient_def close_def)
    with su Some show ?thesis by simp
  next
    case tu: None
    let ?st2 = "st\<lparr>calls := calls st @ [Connect su], open_clients := su # open_clients st,
                   calls := calls st @ [Connect su] @ [Connect tu],
                   open_clients := tu # su # open_clients st\<rparr>"
    obtain r3 st3 where b: "transfer_body drv ?st2 c su tu sc tc = (r3, st3)"
      by (cases "transfer_body drv ?st2 c su tu sc tc")
    from transfer_body_calls[OF b] obtain new
      where new: "calls st3 = calls st @ [Connect su, Connect tu] @ new"
        "built_clients drv new = []" "closed_clients new = []"
      by auto
    from su tu assms b have "st' = close (close st3 tu) su"
      by (auto simp: transfer_with_def MongoClient_def)
    then have "calls st' = calls st @ ([Connect su, Connect tu] @ new @ [Close tu, Close su])"
      using new(1) by (simp add: close_def)
    moreover have "closed_clients ([Connect su, Connect tu] @ new @ [Close tu, Close su]) =
        rev (built_clients drv ([Connect su, Connect tu] @ new @ [Close tu, Close su]))"
      using su tu new(2,3) by (simp add: built_clients_append closed_clients_append)
    ultimately show ?thesis by blast
  qed
qed

lemma except_calls: "calls (except st c e) = calls st"
  by (cases e) (simp_all add: reply_text_def logger_def)

text \<open>Evaluating the handlers on the concrete states.\<close>

lemma demo_sessions:
  "sessions_get demo_state 1 ''source_uri'' = Some ''mongodb://a/db1''"
  "sessions_get demo_state 1 ''target_uri'' = Some ''mongodb://b/db2''"
  "user_sessions demo_state 2 = Some [''source_uri'' \<mapsto> ''mongodb://a/db1'']"
  "user_sessions fresh_state c = None"
  by (simp_all add: sessions_get_def demo_state_def fresh_state_def)

lemma demo_db_names:
  "db_name ''mongodb://a/db1'' = ''db1''"
  "db_name ''mongodb://b/db2'' = ''db2''"
  by (simp_all add: db_name_def)

lemmas run_defs = transfer_with_def transfer_body_def MongoClient_def close_def
  coll_find_def insert_many_def get_database_def reply_text_def logger_def

subsection \<open>The transfer that succeeds\<close>

text \<open>
  C1: with both URIs set, two collection names given, both clients built, both
  databases resolved, and the read of the source collection returning \<open>N > 0\<close>
  documents that the bulk insert accepts, \<open>transfer\<close> makes exactly one bulk insert, of
  those documents, into the target collection; afterwards the target collection holds
  what it held before followed by the \<open>N\<close> documents, every other collection is as it
  was, and the one reply sent reports \<open>N\<close> and the two collection names.
\<close>

theorem transfer_happy_path:
  assumes "user_sessions st c = Some session"
    and "session ''source_uri'' = Some su"
    and "session ''target_uri'' = Some tu"
    and "connect_error drv su = None"
    and "connect_error drv tu = None"
    and "get_database drv su su = Inr sdb"
    and "get_database drv tu tu = Inr tdb"
    and "find_error drv sdb src = None"
    and "colls st (sdb, src) = docs"
    and "docs \<noteq> []"
    and "insert_error drv tdb dst (colls st (tdb, dst)) docs = None"
  shows "fst (transfer drv st c [src, dst]) = None
    \<and> colls (snd (transfer drv st c [src, dst])) =
        (colls st)((tdb, dst) := colls st (tdb, dst) @ docs)
    \<and> outbox (snd (transfer drv st c [src, dst])) =
        outbox st @ [(c, Transferred (length docs) src dst)]
    \<and> calls (snd (transfer drv st c [src, dst])) =
        calls st @ [Connect su, Connect tu, Find sdb src,
                    InsertMany tdb dst (length docs), Close tu, Close su]"
proof -
  have su: "sessions_get st c ''source_uri'' = Some su"
    and tu: "sessions_get st c ''target_uri'' = Some tu"
    using assms(1-3) by (simp_all add: sessions_get_def)
  have "transfer_with drv st c su tu src dst =
      (None, st\<lparr>outbox := outbox st @ [(c, Transferred (length docs) src dst)],
                logs := logs st @ [InfoTransferred (length docs) c],
                colls := (colls st)((tdb, dst) := colls st (tdb, dst) @ docs),
                calls := calls st @ [Connect su, Connect tu, Find sdb src,
                    InsertMany tdb dst (length docs), Close tu, Close su]\<rparr>)"
    using assms(4-11)
    by (simp add: transfer_with_def transfer_body_def MongoClient_def close_def
          coll_find_def insert_many_def reply_text_def logger_def)
  then show ?thesis
    by (simp add: transfer_configured[OF _ su tu])
qed

theorem transfer_happy_path_witness:
  "colls (snd (transfer demo_driver demo_state 1 [''users'', ''backup''])) (2, ''backup'') =
      [7, 10, 20, 30]
   \<and> colls (snd (transfer demo_driver demo_state 1 [''users'', ''backup''])) (1, ''users'') =
      [10, 20, 30]
   \<and> outbox (snd (transfer demo_driver demo_state 1 [''users'', ''backup''])) =
      [(1, Transferred 3 ''users'' ''backup'')]
   \<and> calls (snd (transfer demo_driver demo_state 1 [''users'', ''backup''])) =
      [Connect ''mongodb://a/db1'', Connect ''mongodb://b/db2'', Find 1 ''users'',
       InsertMany 2 ''backup'' 3, Close ''mongodb://b/db2'', Close ''mongodb://a/db1'']"
proof -
  have s: "user_sessions demo_state 1 =
      Some [''source_uri'' \<mapsto> ''mongodb://a/db1'', ''target_uri'' \<mapsto> ''mongodb://b/db2'']"
    by (simp add: demo_state_def)
  have d: "get_database demo_driver ''mongodb://a/db1'' ''mongodb://a/db1'' = Inr 1"
    "get_database demo_driver ''mongodb://b/db2'' ''mongodb://b/db2'' = Inr 2"
    by (simp_all add: get_database_def demo_db_names demo_driver_def)
  have k: "colls demo_state (1, ''users'') = [10, 20, 30]"
    "colls demo_state (2, ''backup'') = [7]"
    by (simp_all add: demo_state_def fresh_state_def)
  have "fst (transfer demo_driver demo_state 1 [''users'', ''backup'']) = None
    \<and> colls (snd (transfer demo_driver demo_state 1 [''users'', ''backup''])) =
        (colls demo_state)((2, ''backup'') := colls demo_state (2, ''backup'') @ [10, 20, 30])
    \<and> outbox (snd (transfer demo_driver demo_state 1 [''users'', ''backup''])) =
        outbox demo_state @ [(1, Transferred (length [10, 20, 30 :: nat]) ''users'' ''backup'')]
    \<and> calls (snd (transfer demo_driver demo_state 1 [''users'', ''backup''])) =
        calls demo_state @ [Connect ''mongodb://a/db1'', Connect ''mongodb://b/db2'',
           Find 1 ''users'', InsertMany 2 ''backup'' (length [10, 20, 30 :: nat]),
           Close ''mongodb://b/db2'', Close ''mongodb://a/db1'']"
    by (rule transfer_happy_path[OF s _ _ _ _ d(1) d(2) _ k(1)])
       (simp_all add: demo_driver_def)
  then show ?thesis
    by (simp add: k) (simp add: demo_state_def fresh_state_def)
qed

subsection \<open>The empty source collection\<close>

text \<open>
  C7: with both URIs set, two collection names given, both clients built, both
  databases resolved, and the read of the source collection returning no document,
  \<open>transfer\<close> sends the one reply "No documents found in source collection", makes no
  bulk insert and leaves every collection as it was; no error is logged and no
  exception leaves the handler.
\<close>

theorem transfer_empty_source:
  assumes "user_sessions st c = Some session"
    and "session ''source_uri'' = Some su"
    and "session ''target_uri'' = Some tu"
    and "connect_error drv su = None"
    and "connect_error drv tu = None"
    and "get_database drv su su = Inr sdb"
    and "get_database drv tu tu = Inr tdb"
    and "find_error drv sdb src = None"
    and "colls st (sdb, src) = []"
  shows "fst (transfer drv st c [src, dst]) = None
    \<and> outbox (snd (transfer drv st c [src, dst])) = outbox st @ [(c, NoDocuments)]
    \<and> colls (snd (transfer drv st c [src, dst])) = colls st
    \<and> calls (snd (transfer drv st c [src, dst])) =
        calls st @ [Connect su, Connect tu, Find sdb src, Close tu, Close su]
    \<and> logs (snd (transfer drv st c [src, dst])) = logs st"
proof -
  have su: "sessions_get st c ''source_uri'' = Some su"
    and tu: "sessions_get st c ''target_uri'' = Some tu"
    using assms(1-3) by (simp_all add: sessions_get_def)
  have "transfer_with drv st c su tu src dst =
      (None, st\<lparr>outbox := outbox st @ [(c, NoDocuments)],
                calls := calls st @ [Connect su, Connect tu, Find sdb src,
                                     Close tu, Close su]\<rparr>)"
    using assms(4-9)
    by (simp add: transfer_with_def transfer_body_def MongoClient_def close_def
          coll_find_def reply_text_def)
  then show ?thesis
    by (simp add: transfer_configured[OF _ su tu])
qed

theorem transfer_empty_source_witness:
  "outbox (snd (transfer demo_driver demo_state 1 [''empty'', ''backup''])) =
      [(1, NoDocuments)]
   \<and> colls (snd (transfer demo_driver demo_state 1 [''empty'', ''backup''])) (2, ''backup'') =
      [7]
   \<and> calls (snd (transfer demo_driver demo_state 1 [''empty'', ''backup''])) =
      [Connect ''mongodb://a/db1'', Connect ''mongodb://b/db2'', Find 1 ''empty'',
       Close ''mongodb://b/db2'', Close ''mongodb://a/db1'']
   \<and> logs (snd (transfer demo_driver demo_state 1 [''empty'', ''backup''])) = []"
proof -
  have s: "user_sessions demo_state 1 =
      Some [''source_uri'' \<mapsto> ''mongodb://a/db1'', ''target_uri'' \<mapsto> ''mongodb://b/db2'']"
    by (simp add: demo_state_def)
  have d: "get_database demo_driver ''mongodb://a/db1'' ''mongodb://a/db1'' = Inr 1"
    "get_database demo_driver ''mongodb://b/db2'' ''mongodb://b/db2'' = Inr 2"
    by (simp_all add: get_database_def demo_db_names demo_driver_def)
  have k: "colls demo_state (1, ''empty'') = []"
    by (simp add: demo_state_def fresh_state_def)
  have "fst (transfer demo_driver demo_state 1 [''empty'', ''backup'']) = None
    \<and> outbox (snd (transfer demo_driver demo_state 1 [''empty'', ''backup''])) =
        outbox demo_state @ [(1, NoDocuments)]
    \<and> colls (snd (transfer demo_driver demo_state 1 [''empty'', ''backup''])) =
        colls demo_state
    \<and> calls (snd (transfer demo_driver demo_state 1 [''empty'', ''backup''])) =
        calls demo_state @ [Connect ''mongodb://a/db1'', Connect ''mongodb://b/db2'',
           Find 1 ''empty'', Close ''mongodb://b/db2'', Close ''mongodb://a/db1'']
    \<and> logs (snd (transfer demo_driver demo_state 1 [''empty'', ''backup''])) =
        logs demo_state"
    by (rule transfer_empty_source[OF s _ _ _ _ d(1) d(2) _ k])
       (simp_all add: demo_driver_def)
  then show ?thesis
    by (simp add: demo_state_def fresh_state_def)
qed

subsection \<open>The checks before any connection\<close>

text \<open>
  C5: when the chat has a session in which \<open>source_uri\<close> or \<open>target_uri\<close> is not set,
  \<open>transfer\<close> with two collection names only sends the reply "Please set both source
  and target URIs first!": no driver call is made, no client is opened, no collection
  changes.
\<close>

theorem transfer_incomplete_session:
  assumes "user_sessions st c = Some session"
    and "session ''source_uri'' = None \<or> session ''target_uri'' = None"
  shows "transfer drv st c [src, dst] = (None, st\<lparr>outbox := outbox st @ [(c, UrisMissing)]\<rparr>)
    \<and> calls (snd (transfer drv st c [src, dst])) = calls st
    \<and> open_clients (snd (transfer drv st c [src, dst])) = open_clients st
    \<and> colls (snd (transfer drv st c [src, dst])) = colls st"
proof -
  have "sessions_get st c ''source_uri'' = None \<or> sessions_get st c ''target_uri'' = None"
    using assms by (simp add: sessions_get_def)
  then have "transfer drv st c [src, dst] = (None, reply_text st c UrisMissing)"
    by (intro transfer_missing) simp_all
  then show ?thesis by (simp add: reply_text_def)
qed

theorem transfer_incomplete_session_witness:
  "outbox (snd (transfer unreachable_driver demo_state 2 [''users'', ''backup''])) =
      [(2, UrisMissing)]
   \<and> calls (snd (transfer unreachable_driver demo_state 2 [''users'', ''backup''])) = []"
proof -
  have "[''source_uri'' \<mapsto> ''mongodb://a/db1''] ''source_uri'' = None
        \<or> [''source_uri'' \<mapsto> ''mongodb://a/db1''] ''target_uri'' = None"
    by simp
  from transfer_incomplete_session[OF demo_sessions(3) this,
      of unreachable_driver "''users''" "''backup''"]
  show ?thesis by (simp add: demo_state_def fresh_state_def)
qed

text \<open>
  C4, as stated: a chat that never configured a URI gets the missing-configuration
  reply whatever the arguments. The argument count is checked first (line 98): with no
  argument the reply is the usage text.
\<close>

theorem transfer_unconfigured_counterexample:
  "user_sessions fresh_state 1 = None
   \<and> outbox (snd (transfer demo_driver fresh_state 1 [])) = [(1, TransferUsage)]
   \<and> outbox (snd (transfer demo_driver fresh_state 1 [])) \<noteq> [(1, UrisMissing)]"
  by (simp add: transfer_usage reply_text_def fresh_state_def)

text \<open>
  C4, amended: a chat that never configured a URI gets the missing-configuration
  reply for every list of exactly two arguments, and the usage reply for every other
  list; nothing else changes in either case.
\<close>

theorem transfer_unconfigured:
  assumes "user_sessions st c = None"
  shows "transfer drv st c args =
    (None, st\<lparr>outbox := outbox st @
       [(c, if length args = 2 then UrisMissing else TransferUsage)]\<rparr>)"
proof (cases "length args = 2")
  case True
  moreover have "sessions_get st c ''source_uri'' = None"
    using assms by (simp add: sessions_get_def)
  ultimately show ?thesis
    by (simp add: transfer_missing reply_text_def)
next
  case False
  then show ?thesis by (simp add: transfer_usage reply_text_def)
qed

theorem transfer_unconfigured_witness:
  "outbox (snd (transfer demo_driver fresh_state 1 [''users'', ''backup''])) =
      [(1, UrisMissing)]
   \<and> outbox (snd (transfer demo_driver fresh_state 1 [''users''])) = [(1, TransferUsage)]"
  using transfer_unconfigured[where st = fresh_state and c = 1 and drv = demo_driver
          and args = "[''users'', ''backup'']"]
    transfer_unconfigured[where st = fresh_state and c = 1 and drv = demo_driver
          and args = "[''users'']"]
  by (simp add: demo_sessions(4)) (simp add: fresh_state_def)



subsection \<open>Exceptions inside \<open>transfer\<close>\<close>

lemma except_outbox: "outbox (except st c e) = outbox st @ [(c, error_reply e)]"
  by (cases e) (simp_all add: reply_text_def logger_def error_reply_def)

lemma unreachable_transfer:
  "transfer unreachable_driver demo_state 1 [''users'', ''backup''] =
     (None, demo_state
       \<lparr>outbox := [(1, MongoDBError ''boom'')],
        logs := [ErrorMongoDB ''boom''],
        calls := [Connect ''mongodb://a/db1'', Connect ''mongodb://b/db2'',
                  Close ''mongodb://a/db1'']\<rparr>)"
  by (simp add: transfer_configured[OF _ demo_sessions(1,2)] run_defs demo_db_names
        unreachable_driver_def demo_driver_def)
     (simp add: demo_state_def fresh_state_def)

lemma dupkey_transfer:
  "transfer dupkey_driver demo_state 1 [''users'', ''backup''] =
     (None, demo_state
       \<lparr>outbox := [(1, MongoDBError ''boom'')],
        logs := [ErrorMongoDB ''boom''],
        calls := [Connect ''mongodb://a/db1'', Connect ''mongodb://b/db2'',
                  Find 1 ''users'', InsertMany 2 ''backup'' 3,
                  Close ''mongodb://b/db2'', Close ''mongodb://a/db1'']\<rparr>)"
  by (simp add: transfer_configured[OF _ demo_sessions(1,2)] run_defs demo_db_names
        dupkey_driver_def demo_driver_def)
     (simp add: demo_state_def fresh_state_def)










text \<open>
  C9: whatever the driver does, whatever the state and the arguments, the clients that
  are open after \<open>transfer\<close> are those that were open before, and in the driver calls
  that \<open>transfer\<close> made every client that was built has been closed (the closed
  clients are the built ones, last built first).
\<close>

theorem transfer_releases_clients:
  "open_clients (snd (transfer drv st c args)) = open_clients st
   \<and> (\<exists>new. calls (snd (transfer drv st c args)) = calls st @ new
          \<and> closed_clients new = rev (built_clients drv new))"
proof (cases "length args = 2 \<and> sessions_get st c ''source_uri'' \<noteq> None
                \<and> sessions_get st c ''target_uri'' \<noteq> None")
  case False
  then have "snd (transfer drv st c args) = reply_text st c TransferUsage
      \<or> snd (transfer drv st c args) = reply_text st c UrisMissing"
    by (cases "length args = 2") (auto simp: transfer_usage transfer_missing)
  then have "open_clients (snd (transfer drv st c args)) = open_clients st"
    and "calls (snd (transfer drv st c args)) = calls st @ []"
    by (auto simp: reply_text_def)
  then show ?thesis by (intro conjI exI[of _ "[]"]) simp_all
next
  case True
  then obtain su tu where len: "length args = 2"
    and su: "sessions_get st c ''source_uri'' = Some su"
    and tu: "sessions_get st c ''target_uri'' = Some tu"
    by auto
  obtain r st' where w: "transfer_with drv st c su tu (args ! 0) (args ! 1) = (r, st')"
    by (cases "transfer_with drv st c su tu (args ! 0) (args ! 1)")
  have "open_clients (snd (transfer drv st c args)) = open_clients st'"
    and "calls (snd (transfer drv st c args)) = calls st'"
    using w
    by (cases r; simp add: transfer_configured[OF len su tu] except_fields(1) except_calls)+
  then show ?thesis
    using transfer_with_fields(1)[OF w] transfer_with_calls[OF w] by simp
qed

theorem transfer_releases_clients_witness:
  "open_clients (snd (transfer unreachable_driver demo_state 1 [''users'', ''backup''])) = []
   \<and> calls (snd (transfer unreachable_driver demo_state 1 [''users'', ''backup''])) =
       [Connect ''mongodb://a/db1'', Connect ''mongodb://b/db2'', Close ''mongodb://a/db1'']
   \<and> built_clients unreachable_driver
         (calls (snd (transfer unreachable_driver demo_state 1 [''users'', ''backup'']))) =
       [''mongodb://a/db1'']
   \<and> closed_clients
         (calls (snd (transfer unreachable_driver demo_state 1 [''users'', ''backup'']))) =
       [''mongodb://a/db1'']
   \<and> open_clients (snd (transfer dupkey_driver demo_state 1 [''users'', ''backup''])) = []
   \<and> calls (snd (transfer dupkey_driver demo_state 1 [''users'', ''backup''])) =
       [Connect ''mongodb://a/db1'', Connect ''mongodb://b/db2'', Find 1 ''users'',
        InsertMany 2 ''backup'' 3, Close ''mongodb://b/db2'', Close ''mongodb://a/db1'']
   \<and> closed_clients
         (calls (snd (transfer dupkey_driver demo_state 1 [''users'', ''backup'']))) =
       [''mongodb://b/db2'', ''mongodb://a/db1'']"
proof -
  have "open_clients demo_state = []"
    by (simp add: demo_state_def fresh_state_def)
  moreover have "connect_error unreachable_driver ''mongodb://a/db1'' = None"
    "connect_error unreachable_driver ''mongodb://b/db2'' \<noteq> None"
    by (simp_all add: unreachable_driver_def demo_driver_def)
  ultimately show ?thesis
    using transfer_releases_clients
            [where drv = unreachable_driver and st = demo_state and c = 1
               and args = "[''users'', ''backup'']"]
          transfer_releases_clients
            [where drv = dupkey_driver and st = demo_state and c = 1
               and args = "[''users'', ''backup'']"]
    by (simp add: unreachable_transfer dupkey_transfer)
qed

text \<open>
  C3, as stated: a connection failure and a failure of the bulk write are reported to
  the operator as two different kinds. Both are \<open>PyMongoError\<close>s and go through the same
  \<open>except\<close> clause: a target server that refuses the connection and a bulk insert that
  fails, each with the message \<open>boom\<close>, give the same reply.
\<close>

theorem transfer_error_kinds_counterexample:
  "connect_error unreachable_driver ''mongodb://b/db2'' = Some (PyMongoError ''boom'')
   \<and> insert_error dupkey_driver 2 ''backup'' [7] [10, 20, 30] = Some (PyMongoError ''boom'')
   \<and> outbox (snd (transfer unreachable_driver demo_state 1 [''users'', ''backup''])) =
       [(1, MongoDBError ''boom'')]
   \<and> outbox (snd (transfer dupkey_driver demo_state 1 [''users'', ''backup''])) =
       [(1, MongoDBError ''boom'')]"
  by (simp add: unreachable_transfer dupkey_transfer)
     (simp add: unreachable_driver_def dupkey_driver_def demo_driver_def)

text \<open>
  C3, amended: a failure inside \<open>transfer\<close> is classified by the class of the exception
  only. Whichever step raises it (building the source client, building the target
  client, resolving either database, the read, the bulk insert), the one reply is
  "MongoDB Error: m" for a \<open>PyMongoError\<close> with message \<open>m\<close> and "Unexpected error: m"
  for any other exception; a connection failure and a data operation failure are not
  told apart.
\<close>

theorem transfer_error_classification:
  assumes "user_sessions st c = Some session"
    and "session ''source_uri'' = Some su"
    and "session ''target_uri'' = Some tu"
  shows
    "(connect_error drv su = Some e \<longrightarrow>
        outbox (snd (transfer drv st c [src, dst])) = outbox st @ [(c, error_reply e)])
   \<and> (connect_error drv su = None \<and> connect_error drv tu = Some e \<longrightarrow>
        outbox (snd (transfer drv st c [src, dst])) = outbox st @ [(c, error_reply e)])
   \<and> (connect_error drv su = None \<and> connect_error drv tu = None
        \<and> get_database drv su su = Inl e \<longrightarrow>
        outbox (snd (transfer drv st c [src, dst])) = outbox st @ [(c, error_reply e)])
   \<and> (connect_error drv su = None \<and> connect_error drv tu = None
        \<and> get_database drv su su = Inr sdb \<and> get_database drv tu tu = Inl e \<longrightarrow>
        outbox (snd (transfer drv st c [src, dst])) = outbox st @ [(c, error_reply e)])
   \<and> (connect_error drv su = None \<and> connect_error drv tu = None
        \<and> get_database drv su su = Inr sdb \<and> get_database drv tu tu = Inr tdb
        \<and> find_error drv sdb src = Some e \<longrightarrow>
        outbox (snd (transfer drv st c [src, dst])) = outbox st @ [(c, error_reply e)])
   \<and> (connect_error drv su = None \<and> connect_error drv tu = None
        \<and> get_database drv su su = Inr sdb \<and> get_database drv tu tu = Inr tdb
        \<and> find_error drv sdb src = None \<and> colls st (sdb, src) \<noteq> []
        \<and> insert_error drv tdb dst (colls st (tdb, dst)) (colls st (sdb, src)) = Some e \<longrightarrow>
        outbox (snd (transfer drv st c [src, dst])) = outbox st @ [(c, error_reply e)])
   \<and> error_reply (PyMongoError m) = MongoDBError m
   \<and> error_reply (OtherException m) = UnexpectedError m"
proof -
  have su: "sessions_get st c ''source_uri'' = Some su"
    and tu: "sessions_get st c ''target_uri'' = Some tu"
    using assms by (simp_all add: sessions_get_def)
  note cfg = transfer_configured[OF _ su tu, of "[src, dst]", simplified]
  have 1: "connect_error drv su = Some e \<longrightarrow>
        outbox (snd (transfer drv st c [src, dst])) = outbox st @ [(c, error_reply e)]"
    by (simp add: cfg transfer_with_def MongoClient_def except_outbox)
  have 2: "connect_error drv su = None \<and> connect_error drv tu = Some e \<longrightarrow>
        outbox (snd (transfer drv st c [src, dst])) = outbox st @ [(c, error_reply e)]"
    by (simp add: cfg transfer_with_def MongoClient_def close_def except_outbox)
  have 3: "connect_error drv su = None \<and> connect_error drv tu = None
        \<and> get_database drv su su = Inl e \<longrightarrow>
        outbox (snd (transfer drv st c [src, dst])) = outbox st @ [(c, error_reply e)]"
    by (simp add: cfg transfer_with_def transfer_body_def MongoClient_def close_def
          except_outbox)
  have 4: "connect_error drv su = None \<and> connect_error drv tu = None
        \<and> get_database drv su su = Inr sdb \<and> get_database drv tu tu = Inl e \<longrightarrow>
        outbox (snd (transfer drv st c [src, dst])) = outbox st @ [(c, error_reply e)]"
    by (simp add: cfg transfer_with_def transfer_body_def MongoClient_def close_def
          except_outbox)
  have 5: "connect_error drv su = None \<and> connect_error drv tu = None
        \<and> get_database drv su su = Inr sdb \<and> get_database drv tu tu = Inr tdb
        \<and> find_error drv sdb src = Some e \<longrightarrow>
        outbox (snd (transfer drv st c [src, dst])) = outbox st @ [(c, error_reply e)]"
    by (simp add: cfg transfer_with_def transfer_body_def MongoClient_def close_def
          coll_find_def except_outbox)
  have 6: "connect_error drv su = None \<and> connect_error drv tu = None
        \<and> get_database drv su su = Inr sdb \<and> get_database drv tu tu = Inr tdb
        \<and> find_error drv sdb src = None \<and> colls st (sdb, src) \<noteq> []
        \<and> insert_error drv tdb dst (colls st (tdb, dst)) (colls st (sdb, src)) = Some e \<longrightarrow>
        outbox (snd (transfer drv st c [src, dst])) = outbox st @ [(c, error_reply e)]"
    by (simp add: cfg transfer_with_def transfer_body_def MongoClient_def close_def
          coll_find_def insert_many_def except_outbox)
  have 7: "error_reply (PyMongoError m) = MongoDBError m"
    "error_reply (OtherException m) = UnexpectedError m"
    by (simp_all add: error_reply_def)
  from 1 2 3 4 5 6 7 show ?thesis by blast
qed

theorem transfer_error_classification_witness:
  "outbox (snd (transfer unreachable_driver demo_state 1 [''users'', ''backup''])) =
       [(1, MongoDBError ''boom'')]
   \<and> outbox (snd (transfer dupkey_driver demo_state 1 [''users'', ''backup''])) =
       [(1, MongoDBError ''boom'')]"
proof -
  let ?su = "''mongodb://a/db1''" and ?tu = "''mongodb://b/db2''"
  let ?e = "PyMongoError ''boom''"
  have s: "user_sessions demo_state 1 = Some [''source_uri'' \<mapsto> ?su, ''target_uri'' \<mapsto> ?tu]"
    "[''source_uri'' \<mapsto> ?su, ''target_uri'' \<mapsto> ?tu] ''source_uri'' = Some ?su"
    "[''source_uri'' \<mapsto> ?su, ''target_uri'' \<mapsto> ?tu] ''target_uri'' = Some ?tu"
    by (simp_all add: demo_state_def)
  have o: "outbox demo_state = []"
    by (simp add: demo_state_def fresh_state_def)
  have u: "connect_error unreachable_driver ?su = None
      \<and> connect_error unreachable_driver ?tu = Some ?e"
    by (simp add: unreachable_driver_def demo_driver_def)
  have d: "connect_error dupkey_driver ?su = None \<and> connect_error dupkey_driver ?tu = None
      \<and> get_database dupkey_driver ?su ?su = Inr 1
      \<and> get_database dupkey_driver ?tu ?tu = Inr 2
      \<and> find_error dupkey_driver 1 ''users'' = None
      \<and> colls demo_state (1, ''users'') \<noteq> []
      \<and> insert_error dupkey_driver 2 ''backup'' (colls demo_state (2, ''backup''))
           (colls demo_state (1, ''users'')) = Some ?e"
    by (simp add: get_database_def demo_db_names dupkey_driver_def demo_driver_def
          demo_state_def fresh_state_def)
  have "outbox (snd (transfer unreachable_driver demo_state 1 [''users'', ''backup''])) =
      outbox demo_state @ [(1, error_reply ?e)]"
    using transfer_error_classification
            [OF s, where drv = unreachable_driver and e = ?e
               and src = "''users''" and dst = "''backup''"] u
    by blast
  moreover
  have "outbox (snd (transfer dupkey_driver demo_state 1 [''users'', ''backup''])) =
      outbox demo_state @ [(1, error_reply ?e)]"
    using transfer_error_classification
            [OF s, where drv = dupkey_driver and e = ?e
               and src = "''users''" and dst = "''backup''" and sdb = 1 and tdb = 2] d
    by blast
  moreover
  have "error_reply ?e = MongoDBError ''boom''"
    using transfer_error_classification[OF s, where m = "''boom''"] by blast
  ultimately show ?thesis
    by (simp add: o)
qed

subsection \<open>Setting the URIs\<close>

text \<open>
  C10: \<open>set_source\<close> with one argument or more stores the first argument as
  \<open>source_uri\<close> of the chat's session, leaves \<open>target_uri\<close> as it was, confirms, and
  does exactly what it does with the first argument alone; \<open>set_target\<close> likewise with
  the two keys exchanged. No usage reply is sent for the extra arguments.
\<close>

theorem set_uri_uses_first_argument:
  "sessions_get (set_source st c (u # extra)) c ''source_uri'' = Some u
   \<and> sessions_get (set_source st c (u # extra)) c ''target_uri'' =
       sessions_get st c ''target_uri''
   \<and> outbox (set_source st c (u # extra)) = outbox st @ [(c, SourceSet)]
   \<and> set_source st c (u # extra) = set_source st c [u]
   \<and> sessions_get (set_target st c (u # extra)) c ''target_uri'' = Some u
   \<and> sessions_get (set_target st c (u # extra)) c ''source_uri'' =
       sessions_get st c ''source_uri''
   \<and> outbox (set_target st c (u # extra)) = outbox st @ [(c, TargetSet)]
   \<and> set_target st c (u # extra) = set_target st c [u]"
  by (simp add: set_source_def set_target_def sessions_get_def reply_text_def logger_def
        Let_def)

theorem set_uri_uses_first_argument_witness:
  "sessions_get (set_source demo_state 2 [''mongodb://c/db3'', ''extra'', ''more'']) 2
       ''source_uri'' = Some ''mongodb://c/db3''
   \<and> sessions_get (set_source demo_state 2 [''mongodb://c/db3'', ''extra'', ''more'']) 2
       ''target_uri'' = None
   \<and> sessions_get (set_target demo_state 2 [''mongodb://c/db3'', ''extra'']) 2
       ''target_uri'' = Some ''mongodb://c/db3''
   \<and> sessions_get (set_target demo_state 2 [''mongodb://c/db3'', ''extra'']) 2
       ''source_uri'' = Some ''mongodb://a/db1''
   \<and> outbox (set_source demo_state 2 [''mongodb://c/db3'', ''extra'', ''more'']) =
       [(2, SourceSet)]"
proof -
  have s: "sessions_get demo_state 2 ''target_uri'' = None"
    "sessions_get demo_state 2 ''source_uri'' = Some ''mongodb://a/db1''"
    "outbox demo_state = []"
    by (simp_all add: sessions_get_def demo_state_def fresh_state_def)
  show ?thesis
    using set_uri_uses_first_argument
            [where st = demo_state and c = 2 and u = "''mongodb://c/db3''"
               and extra = "[''extra'', ''more'']"]
          set_uri_uses_first_argument
            [where st = demo_state and c = 2 and u = "''mongodb://c/db3''"
               and extra = "[''extra'']"]
    unfolding s append_Nil by blast
qed

end
